theory Spec2Isabelle
  imports Main
begin

section \<open>The magnification engine and the module globals of \<^verbatim>\<open>windows_utils\<close>\<close>

text \<open>
  \<^verbatim>\<open>windows_utils.py\<close> drives the operating system's magnification engine through the
  external package \<^verbatim>\<open>win_magnification\<close>. The engine is not part of the sources; what the
  program does to it is recorded as the list of calls it makes, in call order. The five
  colour filters are the entries of the module's \<^verbatim>\<open>colors\<close> array.
\<close>

datatype color_effect =
    COLOR_NO_EFFECT
  | COLOR_INVERSION_EFFECT
  | COLOR_GRAYSCALE_EFFECT
  | COLOR_INVERTED_GRAYSCALE_EFFECT
  | COLOR_SEPIA_EFFECT

datatype mag_call =
    Initialize
  | Finalize
  | SetFullscreenTransform int "int \<times> int"
  | SetFullscreenColorEffect color_effect

text \<open>
  The module globals \<^verbatim>\<open>mag_on\<close>, \<^verbatim>\<open>curr_color\<close> and \<^verbatim>\<open>mag_level\<close>, together with the calls
  made to the engine so far. Python integers are unbounded, hence \<^typ>\<open>int\<close>.
\<close>

record mag_globals =
  mag_on :: bool
  curr_color :: int
  mag_level :: int
  engine_calls :: "mag_call list"

definition initial_globals :: mag_globals where
  "initial_globals =
     \<lparr>mag_on = False, curr_color = 0, mag_level = 1, engine_calls = []\<rparr>"

definition engine_call :: "mag_call \<Rightarrow> mag_globals \<Rightarrow> mag_globals" where
  "engine_call c g = g\<lparr>engine_calls := engine_calls g @ [c]\<rparr>"

definition run_mag :: "mag_globals \<Rightarrow> mag_globals" where
  "run_mag g = (engine_call Initialize g)\<lparr>mag_on := True\<rparr>"

definition exit_mag :: "mag_globals \<Rightarrow> mag_globals" where
  "exit_mag g = (engine_call Finalize g)\<lparr>mag_on := False\<rparr>"

definition set_level :: "mag_globals \<Rightarrow> mag_globals" where
  "set_level g = engine_call (SetFullscreenTransform 2 (2, 2)) g"

definition set_pos :: "int \<Rightarrow> int \<Rightarrow> mag_globals \<Rightarrow> mag_globals" where
  "set_pos x y g = engine_call (SetFullscreenTransform 2 (x, y)) g"

definition mag_increase :: "mag_globals \<Rightarrow> mag_globals" where
  "mag_increase g =
     (let g1 = g\<lparr>mag_level := mag_level g + 1\<rparr>
      in engine_call (SetFullscreenTransform (mag_level g1) (2, 2)) g1)"

definition mag_decrease :: "mag_globals \<Rightarrow> mag_globals" where
  "mag_decrease g =
     (if mag_level g \<le> 1 then engine_call (SetFullscreenTransform 1 (2, 2)) g
      else (let g1 = g\<lparr>mag_level := mag_level g - 1\<rparr>
            in engine_call (SetFullscreenTransform (mag_level g1) (2, 2)) g1))"

definition colors :: "color_effect list" where
  "colors =
     [COLOR_NO_EFFECT, COLOR_INVERSION_EFFECT, COLOR_GRAYSCALE_EFFECT,
      COLOR_INVERTED_GRAYSCALE_EFFECT, COLOR_SEPIA_EFFECT]"

text \<open>\<^verbatim>\<open>mag_setColor\<close>: the index stays in 0..4, so \<^verbatim>\<open>colors[curr_color]\<close> is in range.\<close>

definition mag_setColor :: "mag_globals \<Rightarrow> mag_globals" where
  "mag_setColor g =
     (let g1 = g\<lparr>curr_color := (curr_color g + 1) mod 5\<rparr>
      in engine_call (SetFullscreenColorEffect (colors ! nat (curr_color g1))) g1)"

section \<open>The highlight overlay provider (\<^verbatim>\<open>NVDAMagnifier.py\<close>)\<close>

text \<open>
  The contexts of \<^verbatim>\<open>vision.constants.Context\<close> that the provider uses. The name \<open>Context\<close>
  is capitalised as the Python class is.
\<close>

datatype Context = FOCUS | NAVIGATOR | BROWSEMODE | FOCUS_NAVIGATOR

text \<open>
  A rectangle in screen coordinates, as the named tuples of \<^verbatim>\<open>locationHelper\<close> carry it.
  Two rectangles are equal when their coordinates are. The field \<^verbatim>\<open>top\<close> is written
  \<open>top'\<close>. A named tuple with four fields is never empty, so the Python test
  \<^verbatim>\<open>if rect\<close> is true exactly when the value is not \<^verbatim>\<open>None\<close>.
\<close>

record rect =
  left :: int
  top' :: int
  width :: int
  height :: int

record HighlightStyle =
  color :: "nat \<times> nat \<times> nat"
  stroke_width :: int
  style :: string
  margin :: int

definition DASH_BLUE :: HighlightStyle where
  "DASH_BLUE = \<lparr>color = (0x03, 0x36, 0xFF), stroke_width = 5, style = ''DashStyleDash'', margin = 5\<rparr>"

definition SOLID_PINK :: HighlightStyle where
  "SOLID_PINK = \<lparr>color = (0xFF, 0x02, 0x66), stroke_width = 5, style = ''DashStyleSolid'', margin = 5\<rparr>"

definition SOLID_BLUE :: HighlightStyle where
  "SOLID_BLUE = \<lparr>color = (0x03, 0x36, 0xFF), stroke_width = 5, style = ''DashStyleSolid'', margin = 5\<rparr>"

definition SOLID_YELLOW :: HighlightStyle where
  "SOLID_YELLOW = \<lparr>color = (0xFF, 0xDE, 0x03), stroke_width = 2, style = ''DashStyleSolid'', margin = 2\<rparr>"

fun ContextStyles :: "Context \<Rightarrow> HighlightStyle" where
  "ContextStyles FOCUS = DASH_BLUE"
| "ContextStyles NAVIGATOR = SOLID_PINK"
| "ContextStyles FOCUS_NAVIGATOR = SOLID_BLUE"
| "ContextStyles BROWSEMODE = SOLID_YELLOW"

text \<open>The three boolean attributes of \<^verbatim>\<open>NVDAMagnifierSettings\<close>, with their defaults.\<close>

record settings =
  magnifyFocus :: bool
  magnifyNavigator :: bool
  magnifyBrowseMode :: bool

definition default_settings :: settings where
  "default_settings = \<lparr>magnifyFocus = False, magnifyNavigator = False, magnifyBrowseMode = False\<rparr>"

definition supportedContexts :: "Context list" where
  "supportedContexts = [FOCUS, NAVIGATOR, BROWSEMODE]"

text \<open>
  \<^verbatim>\<open>getattr(settings, "magnify" + Name)\<close>: the settings object has an attribute for each of
  the three supported contexts and none for the merged one (\<open>None\<close> stands for Python's
  AttributeError, which the program never meets: it asks for supported contexts only).
\<close>

fun getattr_magnify :: "settings \<Rightarrow> Context \<Rightarrow> bool option" where
  "getattr_magnify s FOCUS = Some (magnifyFocus s)"
| "getattr_magnify s NAVIGATOR = Some (magnifyNavigator s)"
| "getattr_magnify s BROWSEMODE = Some (magnifyBrowseMode s)"
| "getattr_magnify s FOCUS_NAVIGATOR = None"

text \<open>
  The provider instance: its settings, the dictionary \<^verbatim>\<open>contextToRectMap\<close> (a key may be
  absent, or present with the value \<^verbatim>\<open>None\<close>), and the globals of \<^verbatim>\<open>windows_utils\<close> that
  its methods reach through \<^verbatim>\<open>windows_utils.set_pos\<close>.
\<close>

record provider =
  settings :: settings
  contextToRectMap :: "Context \<rightharpoonup> rect option"
  globals :: mag_globals

definition enabledContexts :: "'a provider_scheme \<Rightarrow> Context list" where
  "enabledContexts self =
     filter (\<lambda>c. getattr_magnify (settings self) c = Some True) supportedContexts"

text \<open>
  Modelled from the spec: \<^verbatim>\<open>vision.util.getContextRect\<close>, the rectangle resolver, is not
  among the sources. The spec describes it as an external function that resolves a context
  (and an optional object) to a rectangle and "may fail (lookup/not-implemented/runtime/type
  errors)"; these are the four exceptions that \<^verbatim>\<open>updateContextRect\<close> catches. The resolver is
  a parameter of the model: it returns a rectangle, \<^verbatim>\<open>None\<close>, or one of the four failures.
\<close>

datatype resolver_error = LookupError | NotImplementedError | RuntimeError | TypeError

type_synonym 'obj resolver = "Context \<Rightarrow> 'obj option \<Rightarrow> resolver_error + rect option"

text \<open>
  \<^verbatim>\<open>updateContextRect(context, rect=None, obj=None)\<close>. The logging calls have no effect on
  the state and are left out.
\<close>

definition updateContextRect ::
  "'obj resolver \<Rightarrow> Context \<Rightarrow> rect option \<Rightarrow> 'obj option \<Rightarrow>
     'a provider_scheme \<Rightarrow> 'a provider_scheme" where
  "updateContextRect getContextRect ctx rect obj self =
     (if ctx \<notin> set (enabledContexts self) then self
      else
        (let rect1 =
               (case rect of
                  None \<Rightarrow> (case getContextRect ctx obj of Inl e \<Rightarrow> None | Inr r \<Rightarrow> r)
                | Some r \<Rightarrow> Some r);
             self1 = self\<lparr>contextToRectMap := (contextToRectMap self)(ctx \<mapsto> rect1)\<rparr>
         in case rect1 of
              None \<Rightarrow> self1
            | Some r \<Rightarrow> self1\<lparr>globals := set_pos (top' r) (left r) (globals self1)\<rparr>))"

definition handleBrowseModeMove ::
  "'obj resolver \<Rightarrow> 'a provider_scheme \<Rightarrow> 'a provider_scheme" where
  "handleBrowseModeMove getContextRect self =
     updateContextRect getContextRect BROWSEMODE None None self"

definition handleReviewMove ::
  "'obj resolver \<Rightarrow> 'a provider_scheme \<Rightarrow> 'a provider_scheme" where
  "handleReviewMove getContextRect self =
     updateContextRect getContextRect NAVIGATOR None None self"

text \<open>
  \<^verbatim>\<open>handleFocusChange(obj)\<close>; \<^verbatim>\<open>api.isObjectInActiveTreeInterceptor\<close> is external and a
  parameter. \<^verbatim>\<open>dict.pop(key, None)\<close> removes the key when it is there.
\<close>

definition handleFocusChange ::
  "'obj resolver \<Rightarrow> ('obj option \<Rightarrow> bool) \<Rightarrow> 'obj option \<Rightarrow>
     'a provider_scheme \<Rightarrow> 'a provider_scheme" where
  "handleFocusChange getContextRect isObjectInActiveTreeInterceptor obj self =
     (let self1 = updateContextRect getContextRect FOCUS None obj self
      in if \<not> isObjectInActiveTreeInterceptor obj
         then self1\<lparr>contextToRectMap := (contextToRectMap self1)(BROWSEMODE := None)\<rparr>
         else handleBrowseModeMove getContextRect self1)"

subsection \<open>The paint pass of the overlay window\<close>

text \<open>
  \<^verbatim>\<open>contextRects\<close> is a Python dictionary, which keeps its keys in insertion order and is
  drawn in that order: an association list with distinct keys. Assigning to a key that is
  present replaces its value in place, assigning to a new key appends it.
\<close>

type_synonym context_rects = "(Context \<times> rect) list"

definition dict_get :: "context_rects \<Rightarrow> Context \<Rightarrow> rect option" where
  "dict_get d k = map_of d k"

definition dict_pop :: "context_rects \<Rightarrow> Context \<Rightarrow> context_rects" where
  "dict_pop d k = filter (\<lambda>p. fst p \<noteq> k) d"

fun dict_setitem :: "context_rects \<Rightarrow> Context \<Rightarrow> rect \<Rightarrow> context_rects" where
  "dict_setitem [] k v = [(k, v)]"
| "dict_setitem (p # ps) k v = (if fst p = k then (k, v) # ps else p # dict_setitem ps k v)"

text \<open>\<^verbatim>\<open>contextToRectMap.get(context)\<close>: \<^verbatim>\<open>None\<close> for an absent key and for a stored \<^verbatim>\<open>None\<close>.\<close>

definition rect_get :: "(Context \<rightharpoonup> rect option) \<Rightarrow> Context \<Rightarrow> rect option" where
  "rect_get m k = (case m k of None \<Rightarrow> None | Some v \<Rightarrow> v)"

text \<open>
  One iteration of the loop of \<^verbatim>\<open>_paint\<close>. In the merging branch \<^verbatim>\<open>pop(Context.FOCUS)\<close>
  has no default, but the branch is entered only when FOCUS is a key of \<^verbatim>\<open>contextRects\<close>.
\<close>

definition paint_body ::
  "(Context \<rightharpoonup> rect option) \<Rightarrow> context_rects \<Rightarrow> Context \<Rightarrow> context_rects" where
  "paint_body m contextRects ctx =
     (case rect_get m ctx of
        None \<Rightarrow> contextRects
      | Some rect \<Rightarrow>
          if ctx = NAVIGATOR \<and> dict_get contextRects FOCUS = Some rect
          then dict_setitem (dict_pop (dict_pop contextRects FOCUS) NAVIGATOR) FOCUS_NAVIGATOR rect
          else dict_setitem contextRects ctx rect)"

definition paint_contextRects :: "'a provider_scheme \<Rightarrow> context_rects" where
  "paint_contextRects magnifier =
     foldl (paint_body (contextToRectMap magnifier)) [] (enabledContexts magnifier)"

text \<open>
  \<^verbatim>\<open>_paint\<close>. The window holds a weak reference to the provider, which is \<open>None\<close> once the
  provider is gone. The outcome is a quit message, nothing at all, or the outlines handed to
  the drawing code in order: for each entry of \<^verbatim>\<open>contextRects\<close> its context, the style
  \<^verbatim>\<open>_ContextStyles[context]\<close> and its rectangle. The conversion of a rectangle to client
  coordinates belongs to \<^verbatim>\<open>locationHelper\<close> and is not modelled.
\<close>

datatype paint_outcome =
    PostQuitMessage
  | NothingPainted
  | Outlines "(Context \<times> HighlightStyle \<times> rect) list"

definition paint :: "'a provider_scheme option \<Rightarrow> paint_outcome" where
  "paint magnifierRef =
     (case magnifierRef of
        None \<Rightarrow> PostQuitMessage
      | Some magnifier \<Rightarrow>
          (let contextRects = paint_contextRects magnifier
           in if contextRects = [] then NothingPainted
              else Outlines (map (\<lambda>(ctx, rect). (ctx, ContextStyles ctx, rect)) contextRects)))"

subsection \<open>Example providers\<close>

text \<open>The entries of \<^verbatim>\<open>contextRects\<close> whose rectangle is a given one.\<close>

definition entries_for :: "rect \<Rightarrow> context_rects \<Rightarrow> context_rects" where
  "entries_for r d = filter (\<lambda>p. snd p = r) d"

definition example_rect :: rect where
  "example_rect = \<lparr>left = 10, top' = 20, width = 300, height = 40\<rparr>"

definition all_enabled :: settings where
  "all_enabled = \<lparr>magnifyFocus = True, magnifyNavigator = True, magnifyBrowseMode = True\<rparr>"

text \<open>Focus, navigator object and browse-mode cursor all on the same rectangle.\<close>

definition coinciding_provider :: provider where
  "coinciding_provider =
     \<lparr>settings = all_enabled,
      contextToRectMap =
        [FOCUS \<mapsto> Some example_rect, NAVIGATOR \<mapsto> Some example_rect,
         BROWSEMODE \<mapsto> Some example_rect],
      globals = initial_globals\<rparr>"

text \<open>Focus and navigator object on the same rectangle, no browse-mode cursor.\<close>

definition merged_provider :: provider where
  "merged_provider =
     \<lparr>settings = all_enabled,
      contextToRectMap = [FOCUS \<mapsto> Some example_rect, NAVIGATOR \<mapsto> Some example_rect],
      globals = initial_globals\<rparr>"

definition focus_only :: settings where
  "focus_only = \<lparr>magnifyFocus = True, magnifyNavigator = False, magnifyBrowseMode = False\<rparr>"

definition fresh_provider :: "settings \<Rightarrow> provider" where
  "fresh_provider s = \<lparr>settings = s, contextToRectMap = Map.empty, globals = initial_globals\<rparr>"

definition other_rect :: rect where
  "other_rect = \<lparr>left = 7, top' = 300, width = 50, height = 12\<rparr>"

text \<open>
  A resolver that finds \<open>example_rect\<close> for the focus and \<open>other_rect\<close> for the
  browse-mode cursor, and fails for the navigator object.
\<close>

fun example_resolver :: "unit resolver" where
  "example_resolver FOCUS obj = Inr (Some example_rect)"
| "example_resolver BROWSEMODE obj = Inr (Some other_rect)"
| "example_resolver NAVIGATOR obj = Inl LookupError"
| "example_resolver FOCUS_NAVIGATOR obj = Inl LookupError"

text \<open>A provider that already holds a browse-mode rectangle, and the two answers of
  \<^verbatim>\<open>api.isObjectInActiveTreeInterceptor\<close>.\<close>

definition with_browse :: provider where
  "with_browse =
     \<lparr>settings = all_enabled, contextToRectMap = [BROWSEMODE \<mapsto> Some other_rect],
      globals = initial_globals\<rparr>"

definition outside_interceptor :: "unit option \<Rightarrow> bool" where
  "outside_interceptor obj = False"

definition inside_interceptor :: "unit option \<Rightarrow> bool" where
  "inside_interceptor obj = True"

section \<open>Exceptions and outcomes\<close>

text \<open>
  The exceptions the two modules raise themselves, \<^verbatim>\<open>WinError()\<close> after a failed call of
  the operating system and \<^verbatim>\<open>RuntimeError(message)\<close>, and the error that \<^verbatim>\<open>win32gui\<close>
  raises when one of its calls fails. A method that raises has often changed the object
  already, so an outcome carries the state in both cases.
\<close>

datatype py_exception = WinError | RuntimeError_msg string | pywintypes_error

datatype 's outcome = Returned 's | Raised py_exception 's

fun state_of :: "'s outcome \<Rightarrow> 's" where
  "state_of (Returned s) = s"
| "state_of (Raised e s) = s"

fun has_returned :: "'s outcome \<Rightarrow> bool" where
  "has_returned (Returned s) = True"
| "has_returned (Raised e s) = False"

section \<open>The overlay window (\<^verbatim>\<open>MagnifyWindow\<close>)\<close>

text \<open>
  Modelled from the spec: \<^verbatim>\<open>mouseHandler.getTotalWidthAndHeightAndMinimumPosition\<close> is not
  among the sources. The spec has the overlay compute "the union bounding box of all
  connected displays" and "the minimum-position offset", and asks that "given zero display
  devices reporting, overlay bounds computation must not crash". The function returns the
  width and height of the bounding box of the display rectangles and its top-left corner;
  for no display it returns an empty box at the origin.
\<close>

fun getTotalWidthAndHeightAndMinimumPosition :: "rect list \<Rightarrow> int \<times> int \<times> (int \<times> int)" where
  "getTotalWidthAndHeightAndMinimumPosition [] = (0, 0, (0, 0))"
| "getTotalWidthAndHeightAndMinimumPosition (d # ds) =
     (let minX = fold min (map left ds) (left d);
          minY = fold min (map top' ds) (top' d);
          maxX = fold max (map (\<lambda>s. left s + width s) ds) (left d + width d);
          maxY = fold max (map (\<lambda>s. top' s + height s) ds) (top' d + height d)
      in (maxX - minX, maxY - minY, (minX, minY)))"

text \<open>
  The calls \<^verbatim>\<open>updateLocationForDisplays\<close> makes to \<^verbatim>\<open>user32\<close>, in order, and the window
  object: its handle, its \<^verbatim>\<open>location\<close> (\<^verbatim>\<open>None\<close> until first computed) and the calls made.
\<close>

datatype user32_call =
    ShowWindow_HIDE
  | SetWindowPos_TOPMOST int int int int
  | ShowWindow_SHOWNA

record overlay_window =
  handle :: nat
  location :: "rect option"
  user32_calls :: "user32_call list"

text \<open>
  \<^verbatim>\<open>updateLocationForDisplays\<close>. The display geometries (\<^verbatim>\<open>wx.Display(i).GetGeometry()\<close>) and
  the answer of \<^verbatim>\<open>SetWindowPos\<close> come from outside and are parameters. The location is
  assigned before the calls to \<^verbatim>\<open>user32\<close>; when \<^verbatim>\<open>SetWindowPos\<close> reports failure the method
  raises \<^verbatim>\<open>WinError\<close> and the window stays hidden.
\<close>

definition updateLocationForDisplays ::
  "rect list \<Rightarrow> bool \<Rightarrow> 'a overlay_window_scheme \<Rightarrow> 'a overlay_window_scheme outcome" where
  "updateLocationForDisplays displays SetWindowPos_ok self =
     (case getTotalWidthAndHeightAndMinimumPosition displays of
        (screenWidth, screenHeight, minPos) \<Rightarrow>
          (let left1 = fst minPos;
               top1 = snd minPos;
               width1 = screenWidth;
               height1 = screenHeight - 1;
               self1 = self\<lparr>location :=
                         Some \<lparr>left = left1, top' = top1, width = width1, height = height1\<rparr>\<rparr>;
               self2 = self1\<lparr>user32_calls := user32_calls self1 @
                         [ShowWindow_HIDE, SetWindowPos_TOPMOST left1 top1 width1 height1]\<rparr>
           in if \<not> SetWindowPos_ok then Raised WinError self2
              else Returned (self2\<lparr>user32_calls := user32_calls self2 @ [ShowWindow_SHOWNA]\<rparr>)))"

definition display_1920x1080 :: rect where
  "display_1920x1080 = \<lparr>left = 0, top' = 0, width = 1920, height = 1080\<rparr>"

definition new_overlay_window :: overlay_window where
  "new_overlay_window = \<lparr>handle = 4242, location = None, user32_calls = []\<rparr>"

section \<open>The windows of \<^verbatim>\<open>windows_utils\<close>\<close>

text \<open>
  A \<^verbatim>\<open>mag.types.Rectangle\<close> is a tuple of four integers. The window messages are those for
  which the module registers a handler with \<^verbatim>\<open>win_event\<close>.
\<close>

type_synonym rectangle = "int \<times> int \<times> int \<times> int"

datatype win_message = WM_CLOSE | WM_DESTROY | WM_USER | WM_SIZE | WM_MOVE | WM_PAINT

text \<open>
  What the operating system answers during one call of the program: the identifier of the
  calling thread, the handles of the windows it creates (\<open>None\<close> when \<^verbatim>\<open>CreateWindowEx\<close>
  fails, which \<^verbatim>\<open>win32gui\<close> raises as an error in the calling thread), the system metrics,
  and the client and window rectangles of the host window.
\<close>

record os_answers =
  GetCurrentThreadId :: nat
  CreateWindowEx :: "nat option"
  CreateWindow :: nat
  SM_CXSCREEN :: int
  SM_CYSCREEN :: int
  SM_CXFRAME :: int
  SM_CYFRAME :: int
  SM_CYCAPTION :: int
  GetClientRect :: rectangle
  GetWindowRect :: rectangle

text \<open>
  The callables handed to \<^verbatim>\<open>_execute\<close>: the two window commands of the module, or any
  other callable with its arguments, whose value is given by a function \<open>call\<close>. The window
  commands return \<^verbatim>\<open>None\<close>.
\<close>

datatype 'x command =
    make_fullscreen "nat option" rectangle
  | make_partial_screen "nat option" rectangle
  | Callable 'x

datatype 'r py_result = PyNone | Value 'r

fun run_command :: "('x \<Rightarrow> 'r) \<Rightarrow> 'x command \<Rightarrow> 'r py_result" where
  "run_command call (make_fullscreen h r) = PyNone"
| "run_command call (make_partial_screen h r) = PyNone"
| "run_command call (Callable x) = Value (call x)"

text \<open>
  The fields of \<^verbatim>\<open>AbstractWindow\<close> and \<^verbatim>\<open>MagnifierWindow\<close>. The two queues are lists with
  the oldest element first. \<open>windows\<close> lists the keys under which the class registry
  \<^verbatim>\<open>AbstractWindow.windows\<close> holds this window, \<open>posted\<close> the messages posted with
  \<^verbatim>\<open>PostMessage\<close> (target handle and message), \<open>executed\<close> the commands run so far, and
  \<open>source_raw\<close> the value last assigned to \<^verbatim>\<open>controller.source.raw\<close>, the source rectangle of
  the magnification control. The field \<^verbatim>\<open>size\<close> is written \<open>size_wh\<close>.
\<close>

record ('x, 'r) window =
  thread :: "nat option"
  thread_id :: "nat option"
  window_started_event :: bool
  command_queue :: "'x command list"
  result_queue :: "'r py_result list"
  hwnd :: "nat option"
  position :: "int \<times> int"
  size_wh :: "int \<times> int"
  fullscreen_rectangle :: rectangle
  fullscreen_mode :: bool
  magnifier_hwnd :: "nat option"
  windows :: "nat option list"
  posted :: "(nat option \<times> win_message) list"
  executed :: "'x command list"
  source_raw :: "rectangle option"

text \<open>\<^verbatim>\<open>AbstractWindow.__init__\<close> and \<^verbatim>\<open>MagnifierWindow.__init__\<close>.\<close>

definition new_window :: "('x, 'r) window" where
  "new_window =
     \<lparr>thread = None, thread_id = None, window_started_event = False,
      command_queue = [], result_queue = [], hwnd = None,
      position = (0, 0), size_wh = (400, 400), fullscreen_rectangle = (0, 0, 200, 200),
      fullscreen_mode = False, magnifier_hwnd = None, windows = [], posted = [],
      executed = [], source_raw = None\<rparr>"

definition rectangle :: "('x, 'r) window \<Rightarrow> rectangle" where
  "rectangle self = (fst (position self), snd (position self), fst (size_wh self), snd (size_wh self))"

definition is_alive :: "('x, 'r) window \<Rightarrow> bool" where
  "is_alive self = window_started_event self"


definition get_fullscreen_size :: "os_answers \<Rightarrow> rectangle" where
  "get_fullscreen_size os = (0, 0, SM_CXSCREEN os, SM_CYSCREEN os)"

text \<open>
  A method decorated with \<^verbatim>\<open>win_event(message)\<close> is replaced by \<^verbatim>\<open>run_event\<close>: calling it
  posts the message to the window. Its body runs when the window procedure \<^verbatim>\<open>on_event\<close>
  receives the message for a handle that the registry knows.
\<close>

definition run_event :: "win_message \<Rightarrow> ('x, 'r) window \<Rightarrow> ('x, 'r) window" where
  "run_event message self = self\<lparr>posted := posted self @ [(hwnd self, message)]\<rparr>"


text \<open>
  \<^verbatim>\<open>MagnifierWindow._create_window\<close> with \<^verbatim>\<open>_create_host_window\<close> and
  \<^verbatim>\<open>_create_magnifier_window\<close>; the call \<^verbatim>\<open>self._on_move()\<close> at its end posts WM_MOVE.
\<close>

definition create_window_impl ::
  "os_answers \<Rightarrow> ('x, 'r) window \<Rightarrow> ('x, 'r) window outcome" where
  "create_window_impl os self =
     (case CreateWindowEx os of
        None \<Rightarrow> Raised pywintypes_error self
      | Some h \<Rightarrow>
          (let self1 = self\<lparr>hwnd := Some h\<rparr>;
               self2 = self1\<lparr>magnifier_hwnd := Some (CreateWindow os)\<rparr>
           in Returned (run_event WM_MOVE self2)))"

text \<open>
  \<^verbatim>\<open>MagnifierWindow.create_window\<close>: it makes a new magnification API object, whose
  source rectangle has not been assigned yet, and goes on with
  \<^verbatim>\<open>AbstractWindow.create_window\<close>. The two window commands are called directly here.
\<close>

definition create_window ::
  "os_answers \<Rightarrow> ('x, 'r) window \<Rightarrow> ('x, 'r) window outcome" where
  "create_window os self0 =
     (let self = self0\<lparr>source_raw := None\<rparr>
      in if is_alive self
      then Raised (RuntimeError_msg ''Magnification window is already running'') self
      else
        (case create_window_impl os (self\<lparr>thread_id := Some (GetCurrentThreadId os)\<rparr>) of
           Raised e self1 \<Rightarrow> Raised e self1
         | Returned self1 \<Rightarrow>
             (let self2 = self1\<lparr>windows := hwnd self1 # windows self1\<rparr>;
                  self3 = self2\<lparr>fullscreen_rectangle := get_fullscreen_size os\<rparr>;
                  self4 =
                    (if fullscreen_mode self3
                     then self3\<lparr>executed := executed self3 @
                            [make_fullscreen (hwnd self3) (fullscreen_rectangle self3)]\<rparr>
                     else self3\<lparr>executed := executed self3 @
                            [make_partial_screen (hwnd self3) (rectangle self3)]\<rparr>)
              in Returned (self4\<lparr>window_started_event := True\<rparr>))))"

subsection \<open>Starting the window thread\<close>

text \<open>
  \<^verbatim>\<open>threading.Event.wait(timeout)\<close>, with times in milliseconds. \<open>set_after\<close> is the time after
  which the event is set (\<open>None\<close>: it never is). With a timeout the call returns whether
  the event was set in time; without one it returns \<^verbatim>\<open>True\<close> once the event is set, and
  does not return at all (\<open>None\<close>) when the event is never set.
\<close>

definition Event_wait :: "nat option \<Rightarrow> nat option \<Rightarrow> bool option" where
  "Event_wait timeout set_after =
     (case timeout of
        None \<Rightarrow> (case set_after of None \<Rightarrow> None | Some t \<Rightarrow> Some True)
      | Some d \<Rightarrow> Some (case set_after of None \<Rightarrow> False | Some t \<Rightarrow> t \<le> d))"

text \<open>
  \<^verbatim>\<open>wait_window_start(timeout=None)\<close>: it waits on \<^verbatim>\<open>_window_started_event\<close> and drops the
  answer. \<open>startup_ms\<close> is the time the window thread needs to set the event, when it does.
\<close>

definition wait_window_start ::
  "nat option \<Rightarrow> nat \<Rightarrow> ('x, 'r) window \<Rightarrow> ('x, 'r) window option" where
  "wait_window_start timeout startup_ms self =
     (case Event_wait timeout (if window_started_event self then Some startup_ms else None) of
        None \<Rightarrow> None
      | Some b \<Rightarrow> Some self)"

text \<open>
  \<^verbatim>\<open>run()\<close>: the new thread runs \<^verbatim>\<open>inner\<close>, that is \<^verbatim>\<open>create_window\<close> and then the message
  loop; an exception in \<^verbatim>\<open>create_window\<close> ends that thread and does not reach the caller.
  The caller meanwhile is in \<^verbatim>\<open>wait_window_start()\<close>, called without a timeout. \<open>os\<close> holds
  the answers given to the new thread. The result \<open>None\<close> is a caller that never returns.
\<close>

definition run :: "os_answers \<Rightarrow> nat \<Rightarrow> ('x, 'r) window \<Rightarrow> ('x, 'r) window option" where
  "run os startup_ms self =
     (let self1 = self\<lparr>thread := Some (GetCurrentThreadId os)\<rparr>;
          self2 = state_of (create_window os self1)
      in wait_window_start None startup_ms self2)"

subsection \<open>Cross-thread execution\<close>

text \<open>
  \<^verbatim>\<open>queue.Queue.get()\<close> takes the oldest element, and blocks while the queue is empty:
  \<open>None\<close> stands for a caller that is blocked until another thread puts an element.
\<close>

fun queue_get :: "'a list \<Rightarrow> ('a \<times> 'a list) option" where
  "queue_get [] = None"
| "queue_get (x # xs) = Some (x, xs)"

text \<open>
  \<^verbatim>\<open>_execute(command, *args, **kwargs)\<close>, called on the thread \<open>cur\<close>
  (\<^verbatim>\<open>win32api.GetCurrentThreadId()\<close>). The result is the value returned, or \<open>None\<close> when the
  caller is left blocked in \<^verbatim>\<open>self._result.get()\<close>, together with the state of the window.
\<close>

definition execute ::
  "('x \<Rightarrow> 'r) \<Rightarrow> nat \<Rightarrow> 'x command \<Rightarrow> ('x, 'r) window \<Rightarrow>
     'r py_result option \<times> ('x, 'r) window" where
  "execute call cur cmd self =
     (if thread_id self = Some cur
      then (Some (run_command call cmd), self\<lparr>executed := executed self @ [cmd]\<rparr>)
      else
        (let self1 = self\<lparr>command_queue := command_queue self @ [cmd]\<rparr>;
             self2 = run_event WM_USER self1
         in case queue_get (result_queue self2) of
              None \<Rightarrow> (None, self2)
            | Some (r, rest) \<Rightarrow> (Some r, self2\<lparr>result_queue := rest\<rparr>)))"

text \<open>
  The body of \<^verbatim>\<open>_on_command_get\<close>, run by the window thread for WM_USER: it takes a command
  from the queue (\<open>None\<close>: the window thread blocks on an empty queue), runs it and puts the
  result.
\<close>

definition on_command_get ::
  "('x \<Rightarrow> 'r) \<Rightarrow> ('x, 'r) window \<Rightarrow> ('x, 'r) window option" where
  "on_command_get call self =
     (case queue_get (command_queue self) of
        None \<Rightarrow> None
      | Some (cmd, rest) \<Rightarrow>
          Some (self\<lparr>command_queue := rest,
                     executed := executed self @ [cmd],
                     result_queue := result_queue self @ [run_command call cmd]\<rparr>))"

text \<open>The caller's \<^verbatim>\<open>self._result.get()\<close>, resumed after the window thread has run.\<close>

definition result_get :: "('x, 'r) window \<Rightarrow> 'r py_result option \<times> ('x, 'r) window" where
  "result_get self =
     (case queue_get (result_queue self) of
        None \<Rightarrow> (None, self)
      | Some (r, rest) \<Rightarrow> (Some r, self\<lparr>result_queue := rest\<rparr>))"

subsection \<open>The handlers of the magnifier host\<close>









text \<open>
  A desktop with one 1920x1080 screen. The host window sits at (100, 100) with a client
  area of 400x400, and is then minimised, which leaves it an empty client area.
\<close>

definition desktop :: os_answers where
  "desktop =
     \<lparr>GetCurrentThreadId = 7, CreateWindowEx = Some 1001, CreateWindow = 1002,
      SM_CXSCREEN = 1920, SM_CYSCREEN = 1080, SM_CXFRAME = 4, SM_CYFRAME = 4,
      SM_CYCAPTION = 23, GetClientRect = (0, 0, 400, 400),
      GetWindowRect = (100, 100, 516, 539)\<rparr>"


text \<open>A system on which \<^verbatim>\<open>CreateWindowEx\<close> fails.\<close>

definition no_window :: os_answers where
  "no_window = desktop\<lparr>CreateWindowEx := None\<rparr>"


section \<open>The life cycle of the provider\<close>

text \<open>
  The provider with the attributes of its life cycle: the thread it starts (its identifier),
  the overlay window \<^verbatim>\<open>_window\<close> (a class attribute that is \<^verbatim>\<open>None\<close> until the thread assigns
  it, written \<open>window'\<close>), and whether GDI+ is initialised.
\<close>

record magnifier = provider +
  magnifierThread :: "nat option"
  window' :: "overlay_window option"
  gdiPlus :: bool








section \<open>Zoom control\<close>

lemma mag_decrease_level:
  "mag_level (mag_decrease g) = (if mag_level g \<le> 1 then mag_level g else mag_level g - 1)"
  by (simp add: mag_decrease_def engine_call_def Let_def)

lemma mag_decrease_calls:
  "engine_calls (mag_decrease g) =
     engine_calls g @ [SetFullscreenTransform (max 1 (mag_level g - 1)) (2, 2)]"
  by (simp add: mag_decrease_def engine_call_def Let_def max_def)

text \<open>
  C8. When the tracked magnification level is 1, \<^verbatim>\<open>mag_decrease\<close> leaves the stored level
  at 1, touches neither of the other globals, and makes exactly one call to the engine: a
  full-screen transform with level 1 (never zero or negative).
\<close>

theorem mag_decrease_floor:
  assumes "mag_level g = 1"
  shows "mag_level (mag_decrease g) = 1
       \<and> engine_calls (mag_decrease g) = engine_calls g @ [SetFullscreenTransform 1 (2, 2)]
       \<and> mag_on (mag_decrease g) = mag_on g
       \<and> curr_color (mag_decrease g) = curr_color g"
  using assms by (simp add: mag_decrease_def engine_call_def)

theorem mag_decrease_floor_witness:
  "mag_level initial_globals = 1
   \<and> mag_level (mag_decrease initial_globals) = 1
   \<and> engine_calls (mag_decrease initial_globals) = [SetFullscreenTransform 1 (2, 2)]"
  using mag_decrease_floor [of initial_globals] by (simp add: initial_globals_def)

section \<open>The paint pass\<close>

subsection \<open>Facts about the enabled contexts and the dictionary operations\<close>

lemma enabledContexts_list:
  "enabledContexts self =
     (if magnifyFocus (settings self) then [FOCUS] else []) @
     (if magnifyNavigator (settings self) then [NAVIGATOR] else []) @
     (if magnifyBrowseMode (settings self) then [BROWSEMODE] else [])"
  by (simp add: enabledContexts_def supportedContexts_def)

lemma enabled_iff:
  "ctx \<in> set (enabledContexts self) \<longleftrightarrow> getattr_magnify (settings self) ctx = Some True"
  by (cases ctx) (simp_all add: enabledContexts_list)

lemma enabledContexts_update_map [simp]:
  "enabledContexts (self\<lparr>contextToRectMap := m\<rparr>) = enabledContexts self"
  by (simp add: enabledContexts_def)

lemma enabledContexts_update_globals [simp]:
  "enabledContexts (self\<lparr>globals := g\<rparr>) = enabledContexts self"
  by (simp add: enabledContexts_def)

text \<open>
  The merging branch of the loop pops FOCUS without a default. It is entered only when
  \<^verbatim>\<open>contextRects.get(Context.FOCUS)\<close> equals a rectangle, so FOCUS is a key and the pop
  cannot raise \<^verbatim>\<open>KeyError\<close>.
\<close>

lemma merging_branch_has_focus:
  "dict_get contextRects FOCUS = Some rect \<Longrightarrow> FOCUS \<in> fst ` set contextRects"
  by (auto simp: dict_get_def dest: map_of_SomeD intro: rev_image_eqI)

text \<open>Without a merge each enabled context with a rectangle keeps its own entry.\<close>

lemma contextRects_not_merged:
  assumes "FOCUS \<in> set (enabledContexts self)" "NAVIGATOR \<in> set (enabledContexts self)"
    and "BROWSEMODE \<notin> set (enabledContexts self)"
    and "contextToRectMap self FOCUS = Some (Some r)"
    and "contextToRectMap self NAVIGATOR = Some (Some r')" and "r \<noteq> r'"
  shows "paint_contextRects self = [(FOCUS, r), (NAVIGATOR, r')]"
  using assms
  by (simp add: enabled_iff paint_contextRects_def enabledContexts_list paint_body_def
      rect_get_def dict_get_def)

lemma contextRects_merged:
  assumes "FOCUS \<in> set (enabledContexts self)" "NAVIGATOR \<in> set (enabledContexts self)"
    and "contextToRectMap self FOCUS = Some (Some r)" "contextToRectMap self NAVIGATOR = Some (Some r)"
  shows "paint_contextRects self =
     (FOCUS_NAVIGATOR, r) #
       (if BROWSEMODE \<in> set (enabledContexts self) then
          (case rect_get (contextToRectMap self) BROWSEMODE of None \<Rightarrow> [] | Some rb \<Rightarrow> [(BROWSEMODE, rb)])
        else [])"
proof -
  from assms(1,2) have f: "magnifyFocus (settings self)" and n: "magnifyNavigator (settings self)"
    by (simp_all add: enabled_iff)
  have two: "foldl (paint_body (contextToRectMap self)) [] [FOCUS, NAVIGATOR] = [(FOCUS_NAVIGATOR, r)]"
    using assms(3,4) by (simp add: paint_body_def rect_get_def dict_get_def dict_pop_def)
  show ?thesis
  proof (cases "magnifyBrowseMode (settings self)")
    case True
    then have "paint_contextRects self =
        paint_body (contextToRectMap self) [(FOCUS_NAVIGATOR, r)] BROWSEMODE"
      using f n two by (simp add: paint_contextRects_def enabledContexts_list)
    then show ?thesis using True
      by (simp add: enabled_iff paint_body_def split: option.splits)
  next
    case False
    then show ?thesis using f n two
      by (simp add: paint_contextRects_def enabledContexts_list enabled_iff)
  qed
qed

text \<open>
  C1, as stated, fails. With all three contexts enabled and the focus, the navigator object
  and the browse-mode cursor on one and the same rectangle, the paint pass merges focus and
  navigator into FOCUS_NAVIGATOR and still keeps the BROWSEMODE entry: there are two entries
  for that rectangle, and two outlines are drawn on it.
\<close>

theorem paint_merge_counterexample:
  "FOCUS \<in> set (enabledContexts coinciding_provider)
   \<and> NAVIGATOR \<in> set (enabledContexts coinciding_provider)
   \<and> contextToRectMap coinciding_provider FOCUS = Some (Some example_rect)
   \<and> contextToRectMap coinciding_provider NAVIGATOR = Some (Some example_rect)
   \<and> paint_contextRects coinciding_provider =
       [(FOCUS_NAVIGATOR, example_rect), (BROWSEMODE, example_rect)]
   \<and> length (entries_for example_rect (paint_contextRects coinciding_provider)) = 2
   \<and> paint (Some coinciding_provider) =
       Outlines [(FOCUS_NAVIGATOR, SOLID_BLUE, example_rect),
                 (BROWSEMODE, SOLID_YELLOW, example_rect)]"
  by (simp add: coinciding_provider_def all_enabled_def enabledContexts_list
      paint_def paint_contextRects_def paint_body_def rect_get_def dict_get_def dict_pop_def
      entries_for_def)

text \<open>
  C1, amended. Whenever FOCUS and NAVIGATOR are both enabled and both map to the same
  non-null rectangle, the rectangles to draw have the entry FOCUS_NAVIGATOR for that
  rectangle, no FOCUS entry and no NAVIGATOR entry; apart from a BROWSEMODE entry there is
  nothing else, and the BROWSEMODE entry is there exactly when BROWSEMODE is enabled and has
  a non-null rectangle (whatever that rectangle is). The first outline drawn is the merged
  one, in the style of FOCUS_NAVIGATOR.
\<close>

theorem paint_merge:
  assumes "FOCUS \<in> set (enabledContexts self)" and "NAVIGATOR \<in> set (enabledContexts self)"
    and "contextToRectMap self FOCUS = Some (Some r)"
    and "contextToRectMap self NAVIGATOR = Some (Some r)"
  shows "dict_get (paint_contextRects self) FOCUS_NAVIGATOR = Some r
       \<and> dict_get (paint_contextRects self) FOCUS = None
       \<and> dict_get (paint_contextRects self) NAVIGATOR = None
       \<and> dict_pop (paint_contextRects self) BROWSEMODE = [(FOCUS_NAVIGATOR, r)]
       \<and> dict_get (paint_contextRects self) BROWSEMODE =
           (if BROWSEMODE \<in> set (enabledContexts self)
            then rect_get (contextToRectMap self) BROWSEMODE else None)
       \<and> (\<exists>rest. paint (Some self) = Outlines ((FOCUS_NAVIGATOR, SOLID_BLUE, r) # rest)
              \<and> length rest \<le> 1 \<and> fst ` set rest \<subseteq> {BROWSEMODE})"
proof -
  note cr = contextRects_merged [OF assms]
  show ?thesis
  proof (cases "BROWSEMODE \<in> set (enabledContexts self)")
    case False
    then have "paint_contextRects self = [(FOCUS_NAVIGATOR, r)]"
      by (simp add: cr)
    with False show ?thesis
      by (simp add: paint_def dict_get_def dict_pop_def)
  next
    case True
    show ?thesis
    proof (cases "rect_get (contextToRectMap self) BROWSEMODE")
      case None
      with True have "paint_contextRects self = [(FOCUS_NAVIGATOR, r)]"
        by (simp add: cr)
      with True None show ?thesis
        by (simp add: paint_def dict_get_def dict_pop_def)
    next
      case (Some rb)
      with True have "paint_contextRects self = [(FOCUS_NAVIGATOR, r), (BROWSEMODE, rb)]"
        by (simp add: cr)
      with True Some show ?thesis
        by (simp add: paint_def dict_get_def dict_pop_def)
    qed
  qed
qed

theorem paint_merge_witness:
  "FOCUS \<in> set (enabledContexts merged_provider)
   \<and> NAVIGATOR \<in> set (enabledContexts merged_provider)
   \<and> contextToRectMap merged_provider FOCUS = Some (Some example_rect)
   \<and> dict_get (paint_contextRects merged_provider) FOCUS_NAVIGATOR = Some example_rect
   \<and> dict_get (paint_contextRects merged_provider) FOCUS = None
   \<and> dict_get (paint_contextRects merged_provider) NAVIGATOR = None
   \<and> dict_pop (paint_contextRects merged_provider) BROWSEMODE = [(FOCUS_NAVIGATOR, example_rect)]"
proof -
  have e: "FOCUS \<in> set (enabledContexts merged_provider)"
    "NAVIGATOR \<in> set (enabledContexts merged_provider)"
    by (simp_all add: merged_provider_def all_enabled_def enabledContexts_list)
  have m: "contextToRectMap merged_provider FOCUS = Some (Some example_rect)"
    "contextToRectMap merged_provider NAVIGATOR = Some (Some example_rect)"
    by (simp_all add: merged_provider_def)
  from paint_merge [OF e m] e m show ?thesis by simp
qed

section \<open>Updates of the context rectangles\<close>

text \<open>
  C6. For a context that is not in the enabled set, \<^verbatim>\<open>updateContextRect\<close> returns at once:
  the whole provider state is unchanged, so no entry of \<^verbatim>\<open>contextToRectMap\<close> is written or
  removed and no call reaches the magnification engine. This holds whether or not a
  rectangle is passed in, and whatever the resolver would answer.
\<close>

theorem updateContextRect_disabled:
  assumes "ctx \<notin> set (enabledContexts self)"
  shows "updateContextRect getContextRect ctx rect obj self = self"
  using assms by (simp add: updateContextRect_def)

theorem updateContextRect_disabled_witness:
  "NAVIGATOR \<notin> set (enabledContexts (fresh_provider focus_only))
   \<and> updateContextRect example_resolver NAVIGATOR (Some example_rect) None (fresh_provider focus_only)
       = fresh_provider focus_only"
proof -
  have "NAVIGATOR \<notin> set (enabledContexts (fresh_provider focus_only))"
    by (simp add: enabledContexts_list fresh_provider_def focus_only_def)
  from this updateContextRect_disabled [OF this] show ?thesis by simp
qed

text \<open>
  C9. For an enabled context that yields a non-null rectangle (passed in, or found by the
  resolver), \<^verbatim>\<open>updateContextRect\<close> stores the rectangle under the context and then calls
  \<^verbatim>\<open>set_pos(int(rect.top), int(rect.left))\<close>: exactly one more call reaches the engine, a
  full-screen transform with level 2 whose offset has the rectangle's top as its first
  component and its left as its second.
\<close>

theorem updateContextRect_set_pos:
  assumes "ctx \<in> set (enabledContexts self)"
    and "rect = Some r \<or> (rect = None \<and> getContextRect ctx obj = Inr (Some r))"
  shows "contextToRectMap (updateContextRect getContextRect ctx rect obj self)
           = (contextToRectMap self)(ctx \<mapsto> Some r)
       \<and> globals (updateContextRect getContextRect ctx rect obj self)
           = set_pos (top' r) (left r) (globals self)
       \<and> engine_calls (globals (updateContextRect getContextRect ctx rect obj self))
           = engine_calls (globals self) @ [SetFullscreenTransform 2 (top' r, left r)]"
  using assms by (auto simp: updateContextRect_def set_pos_def engine_call_def Let_def)

theorem updateContextRect_set_pos_witness:
  "FOCUS \<in> set (enabledContexts (fresh_provider focus_only))
   \<and> example_resolver FOCUS None = Inr (Some example_rect)
   \<and> contextToRectMap (updateContextRect example_resolver FOCUS None None (fresh_provider focus_only)) FOCUS
        = Some (Some example_rect)
   \<and> engine_calls (globals (updateContextRect example_resolver FOCUS None None (fresh_provider focus_only)))
        = [SetFullscreenTransform 2 (20, 10)]"
proof -
  have e: "FOCUS \<in> set (enabledContexts (fresh_provider focus_only))"
    by (simp add: enabledContexts_list fresh_provider_def focus_only_def)
  have r: "(None :: rect option) = Some example_rect \<or>
      ((None :: rect option) = None \<and> example_resolver FOCUS None = Inr (Some example_rect))"
    by simp
  from updateContextRect_set_pos
         [where ctx = FOCUS and self = "fresh_provider focus_only" and rect = None
            and r = example_rect and getContextRect = example_resolver and obj = None, OF e r] e
  show ?thesis
    by (simp add: fresh_provider_def initial_globals_def example_rect_def set_pos_def engine_call_def)
qed

lemma updateContextRect_engine:
  assumes "ctx \<in> set (enabledContexts self)"
    and "rect = Some r \<or> (rect = None \<and> getContextRect ctx obj = Inr (Some r))"
  shows "engine_calls (globals (updateContextRect getContextRect ctx rect obj self))
           = engine_calls (globals self) @ [SetFullscreenTransform 2 (top' r, left r)]"
  using assms by (auto simp: updateContextRect_def set_pos_def engine_call_def Let_def)

lemma updateContextRect_other_key:
  "k \<noteq> ctx \<Longrightarrow>
   contextToRectMap (updateContextRect getContextRect ctx rect obj self) k = contextToRectMap self k"
  by (simp add: updateContextRect_def Let_def split: option.splits)

lemma updateContextRect_settings:
  "settings (updateContextRect getContextRect ctx rect obj self) = settings self"
  by (simp add: updateContextRect_def Let_def split: option.splits)

text \<open>
  C10. \<^verbatim>\<open>handleFocusChange\<close> first updates the FOCUS context. For an object outside the
  active tree interceptor it then removes the BROWSEMODE key from \<^verbatim>\<open>contextToRectMap\<close>
  and does nothing else (nothing at all if the key was absent); for an object inside, it
  runs \<^verbatim>\<open>handleBrowseModeMove\<close> on the state left by the FOCUS update, which is the update
  of the BROWSEMODE context.
\<close>

theorem handleFocusChange_browse_mode:
  "(\<not> inTI obj \<longrightarrow>
      contextToRectMap (handleFocusChange gcr inTI obj self)
        = (contextToRectMap (updateContextRect gcr FOCUS None obj self))(BROWSEMODE := None)
      \<and> BROWSEMODE \<notin> dom (contextToRectMap (handleFocusChange gcr inTI obj self))
      \<and> globals (handleFocusChange gcr inTI obj self)
          = globals (updateContextRect gcr FOCUS None obj self)
      \<and> (BROWSEMODE \<notin> dom (contextToRectMap self) \<longrightarrow>
           handleFocusChange gcr inTI obj self = updateContextRect gcr FOCUS None obj self))
   \<and> (inTI obj \<longrightarrow>
      handleFocusChange gcr inTI obj self
        = handleBrowseModeMove gcr (updateContextRect gcr FOCUS None obj self)
      \<and> handleBrowseModeMove gcr (updateContextRect gcr FOCUS None obj self)
        = updateContextRect gcr BROWSEMODE None None (updateContextRect gcr FOCUS None obj self))"
proof -
  let ?s1 = "updateContextRect gcr FOCUS None obj self"
  have absent: "handleFocusChange gcr inTI obj self = ?s1"
    if "\<not> inTI obj" "BROWSEMODE \<notin> dom (contextToRectMap self)"
  proof -
    from that(2) have "contextToRectMap ?s1 BROWSEMODE = None"
      by (simp add: updateContextRect_other_key domIff)
    then have "(contextToRectMap ?s1)(BROWSEMODE := None) = contextToRectMap ?s1"
      by (simp add: fun_upd_idem_iff)
    with that(1) show ?thesis
      by (simp add: handleFocusChange_def Let_def)
  qed
  show ?thesis
    using absent by (simp add: handleFocusChange_def handleBrowseModeMove_def Let_def)
qed

theorem handleFocusChange_browse_mode_witness:
  "contextToRectMap (handleFocusChange example_resolver outside_interceptor None with_browse)
      BROWSEMODE = None
   \<and> contextToRectMap (handleFocusChange example_resolver outside_interceptor None with_browse)
      FOCUS = Some (Some example_rect)
   \<and> engine_calls
        (globals (handleFocusChange example_resolver inside_interceptor None with_browse))
      = [SetFullscreenTransform 2 (20, 10), SetFullscreenTransform 2 (300, 7)]"
proof -
  have e: "FOCUS \<in> set (enabledContexts with_browse)"
    "BROWSEMODE \<in> set (enabledContexts with_browse)"
    by (simp_all add: enabledContexts_list with_browse_def all_enabled_def)
  have out: "\<not> outside_interceptor None" and ins: "inside_interceptor None"
    by (simp_all add: outside_interceptor_def inside_interceptor_def)
  have s1: "contextToRectMap (updateContextRect example_resolver FOCUS None None with_browse)
      = [BROWSEMODE \<mapsto> Some other_rect, FOCUS \<mapsto> Some example_rect]"
    using e by (simp add: updateContextRect_def with_browse_def)
  have g1: "engine_calls (globals (updateContextRect example_resolver FOCUS None None with_browse))
      = [SetFullscreenTransform 2 (20, 10)]"
    using e
    by (simp add: updateContextRect_def with_browse_def set_pos_def engine_call_def
        initial_globals_def example_rect_def)
  have e2: "BROWSEMODE \<in> set (enabledContexts
      (updateContextRect example_resolver FOCUS None None with_browse))"
    using e by (simp add: enabled_iff updateContextRect_settings)
  have g2: "engine_calls (globals (updateContextRect example_resolver BROWSEMODE None None
        (updateContextRect example_resolver FOCUS None None with_browse)))
      = [SetFullscreenTransform 2 (20, 10), SetFullscreenTransform 2 (300, 7)]"
    using updateContextRect_engine [where getContextRect = example_resolver and ctx = BROWSEMODE
        and rect = None and obj = None and r = other_rect, OF e2] g1
    by (simp add: other_rect_def)
  from handleFocusChange_browse_mode
         [of outside_interceptor None example_resolver with_browse] out s1
  have a: "contextToRectMap
      (handleFocusChange example_resolver outside_interceptor None with_browse)
      = [FOCUS \<mapsto> Some example_rect]"
    by (simp add: fun_eq_iff)
  from handleFocusChange_browse_mode
         [of inside_interceptor None example_resolver with_browse] ins g2
  have b: "engine_calls
        (globals (handleFocusChange example_resolver inside_interceptor None with_browse))
      = [SetFullscreenTransform 2 (20, 10), SetFullscreenTransform 2 (300, 7)]"
    by simp
  from a b show ?thesis by simp
qed

section \<open>Overlay bounds\<close>

text \<open>
  C7. With no display at all the overlay bounds computation raises nothing: it yields the
  location (0, 0, 0, -1) and, when \<^verbatim>\<open>SetWindowPos\<close> succeeds, the method returns. With one
  1920x1080 display at the origin the location is left 0, top 0, width 1920, height 1079
  (the total height less one pixel), and the same four numbers go to \<^verbatim>\<open>SetWindowPos\<close>.
\<close>

theorem overlay_bounds:
  "location (state_of (updateLocationForDisplays [] ok self))
      = Some \<lparr>left = 0, top' = 0, width = 0, height = - 1\<rparr>
   \<and> updateLocationForDisplays [] True self
      = Returned (state_of (updateLocationForDisplays [] True self))
   \<and> location (state_of (updateLocationForDisplays [display_1920x1080] ok self))
      = Some \<lparr>left = 0, top' = 0, width = 1920, height = 1079\<rparr>
   \<and> user32_calls (state_of (updateLocationForDisplays [display_1920x1080] True self))
      = user32_calls self @ [ShowWindow_HIDE, SetWindowPos_TOPMOST 0 0 1920 1079, ShowWindow_SHOWNA]"
  by (simp add: updateLocationForDisplays_def display_1920x1080_def Let_def)

theorem overlay_bounds_witness:
  "has_returned (updateLocationForDisplays [] True new_overlay_window)
   \<and> location (state_of (updateLocationForDisplays [display_1920x1080] True new_overlay_window))
      = Some \<lparr>left = 0, top' = 0, width = 1920, height = 1079\<rparr>"
proof -
  from overlay_bounds [of True new_overlay_window]
  have "updateLocationForDisplays [] True new_overlay_window
      = Returned (state_of (updateLocationForDisplays [] True new_overlay_window))"
    and "location (state_of (updateLocationForDisplays [display_1920x1080] True new_overlay_window))
      = Some \<lparr>left = 0, top' = 0, width = 1920, height = 1079\<rparr>"
    by simp_all
  then show ?thesis by (metis has_returned.simps(1))
qed

section \<open>Starting the window thread\<close>


lemma create_window_started:
  "window_started_event (state_of (create_window os self))
     \<longleftrightarrow> window_started_event self \<or> CreateWindowEx os \<noteq> None"
  by (auto simp: create_window_def create_window_impl_def is_alive_def run_event_def Let_def
      split: option.splits)

text \<open>
  C2, as stated, fails. \<^verbatim>\<open>run\<close> calls \<^verbatim>\<open>wait_window_start()\<close> without a timeout. When
  \<^verbatim>\<open>CreateWindowEx\<close> fails in the new thread, that thread ends without setting the event and
  the caller of \<^verbatim>\<open>run\<close> never returns: nothing is raised to it.
\<close>

theorem run_no_timeout_counterexample:
  "run no_window 0 (new_window :: (unit, unit) window) = None"
  by (simp add: run_def wait_window_start_def Event_wait_def create_window_def
      create_window_impl_def is_alive_def new_window_def no_window_def desktop_def)

text \<open>
  C2, amended. \<^verbatim>\<open>run\<close> returns exactly when the window-started event gets set, that is
  when the window was alive already or \<^verbatim>\<open>CreateWindowEx\<close> succeeds in the new thread; it
  then returns normally, with the window alive and as \<^verbatim>\<open>create_window\<close> left it. There is no
  timeout and no exception: when the event is never set, the caller stays blocked.
\<close>

theorem run_blocks_until_started:
  "(run os startup_ms self \<noteq> None \<longleftrightarrow> is_alive self \<or> CreateWindowEx os \<noteq> None)
   \<and> (\<forall>self'. run os startup_ms self = Some self' \<longrightarrow>
         is_alive self'
         \<and> self' = state_of (create_window os (self\<lparr>thread := Some (GetCurrentThreadId os)\<rparr>)))
   \<and> (\<not> is_alive self \<and> CreateWindowEx os = None \<longrightarrow> run os startup_ms self = None)"
proof -
  let ?w = "state_of (create_window os (self\<lparr>thread := Some (GetCurrentThreadId os)\<rparr>))"
  have started: "window_started_event ?w \<longleftrightarrow> is_alive self \<or> CreateWindowEx os \<noteq> None"
    by (simp add: create_window_started is_alive_def)
  have r: "run os startup_ms self = (if window_started_event ?w then Some ?w else None)"
    by (simp add: run_def wait_window_start_def Event_wait_def Let_def)
  show ?thesis
    using started by (auto simp: r is_alive_def)
qed

theorem run_blocks_until_started_witness:
  "(\<exists>self'. run desktop 5 (new_window :: (unit, unit) window) = Some self' \<and> is_alive self')
   \<and> run no_window 5 (new_window :: (unit, unit) window) = None"
proof -
  have a: "CreateWindowEx desktop \<noteq> None" "CreateWindowEx no_window = None"
    "\<not> is_alive (new_window :: (unit, unit) window)"
    by (simp_all add: desktop_def no_window_def is_alive_def new_window_def)
  from run_blocks_until_started [of desktop 5 "new_window :: (unit, unit) window"]
       run_blocks_until_started [of no_window 5 "new_window :: (unit, unit) window"] a
  show ?thesis by auto
qed

section \<open>Cross-thread execution\<close>



text \<open>
  The other half of the exchange: with no call in flight, a call from another thread leaves
  the caller blocked; once the window thread has handled WM_USER, the caller's
  \<^verbatim>\<open>self._result.get()\<close> returns the result of the command, which the window thread ran.
\<close>

lemma execute_handshake:
  assumes "thread_id self \<noteq> Some cur" and "command_queue self = []" and "result_queue self = []"
  shows "fst (execute call cur cmd self) = None
       \<and> (\<exists>self'. on_command_get call (snd (execute call cur cmd self)) = Some self'
             \<and> fst (result_get self') = Some (run_command call cmd)
             \<and> executed self' = executed self @ [cmd]
             \<and> command_queue (snd (result_get self')) = []
             \<and> result_queue (snd (result_get self')) = [])"
  using assms
  by (simp add: execute_def run_event_def on_command_get_def result_get_def Let_def)

section \<open>The source rectangle of the magnifier host\<close>




section \<open>Failed construction of the provider\<close>





end
